theory Spec2Isabelle
  imports Main "HOL-Library.AList"
begin

section \<open>The API key manager (src/models/api-keys/index.ts)\<close>

text \<open>
  \<^verbatim>\<open>ApiKeyManager\<close> validates API keys through three tiers: a process-local map
  (\<^verbatim>\<open>ApiKeyManager.apiKeys\<close>), redis, and the \<^verbatim>\<open>api_keys\<close> table. The functions are
  asynchronous and talk to redis, the database, a webhook and the logger; the embedding
  makes all of that explicit: every function takes the \<open>world\<close> (the process-local map,
  the contents and the behaviour of the collaborators, the calls made so far) and returns
  the new one with its result. An exception is a value \<open>Inl e\<close>.
\<close>

subsection \<open>Data\<close>

text \<open>\<^verbatim>\<open>ApiKeyRecord\<close>: \<^verbatim>\<open>key?: string\<close> is an optional property, \<open>None\<close> when it is absent.\<close>

record ApiKeyRecord =
  app_name :: string
  website :: string
  email :: string
  tier :: int
  key :: "string option"

text \<open>\<^verbatim>\<open>NewApiKeyResponse | boolean\<close>: \<^verbatim>\<open>create\<close> returns \<^verbatim>\<open>false\<close> or \<^verbatim>\<open>{ key }\<close>.\<close>

datatype create_result = ReturnFalse | NewApiKeyResponse string

text \<open>
  Modelled from the spec: the \<^verbatim>\<open>api_keys\<close> table is not declared in the sources. A row
  has the columns of the spec's Store row layout, under the names the insert of
  \<^verbatim>\<open>create\<close> writes (the properties of \<^verbatim>\<open>ApiKeyRecord\<close>) and the \<^verbatim>\<open>active\<close> flag that the
  select of \<^verbatim>\<open>getApiKey\<close> tests.
\<close>

record row =
  row_key :: string
  row_app_name :: string
  row_website :: string
  row_email :: string
  row_tier :: int
  row_active :: bool

text \<open>
  Modelled from the spec: the class \<^verbatim>\<open>ApiKeyEntity\<close> (api-key-entity.ts) is not in the
  sources. The spec has it as an immutable read view that carries the fields of the
  row it is constructed from.
\<close>

datatype ApiKeyEntity = ApiKeyEntity row

text \<open>A JavaScript value of a field of \<^verbatim>\<open>ApiKeyUpdateParams\<close> or of a redis hash.\<close>

datatype js_value = JStr string | JNum int | JBool bool

text \<open>The objects the code hands to \<^verbatim>\<open>JSON.stringify\<close>: a row, and \<^verbatim>\<open>{ key }\<close>.\<close>

datatype json_arg = JsonRow row | JsonKey string

text \<open>\<^verbatim>\<open>Channel\<close> (pubsub/channels.ts) is not in the sources; one member is used.\<close>

datatype Channel = ApiKeyUpdated

datatype error =
    RedisError          \<comment> \<open>a redis call rejects\<close>
  | WrongType           \<comment> \<open>redis: the key holds a value of another kind\<close>
  | StoreError          \<comment> \<open>a database call rejects\<close>
  | MultipleRows        \<comment> \<open>\<^verbatim>\<open>oneOrNone\<close> got more than one row\<close>
  | SqlSyntaxError      \<comment> \<open>the database refuses the statement\<close>
  | SqlColumnError      \<comment> \<open>unknown column, a value of the wrong type, or a column set twice\<close>
  | MissingProperty     \<comment> \<open>a \<^verbatim>\<open>$/name/\<close> with no such property in the values\<close>
  | UniqueViolation
  | ParseError          \<comment> \<open>\<^verbatim>\<open>new ApiKeyEntity(JSON.parse(s))\<close> throws\<close>
  | NotifierError       \<comment> \<open>the webhook post rejects\<close>

text \<open>
  The library functions the code calls and the sources do not contain are parameters:
  \<^verbatim>\<open>getUuidByString\<close> (uuid-by-string), \<^verbatim>\<open>_.snakeCase\<close> (lodash), \<^verbatim>\<open>JSON.stringify\<close>, and
  \<^verbatim>\<open>new ApiKeyEntity(JSON.parse(s))\<close>, which is \<open>None\<close> where it throws.
\<close>

record lib =
  getUuidByString :: "string \<Rightarrow> string"
  snakeCase :: "string \<Rightarrow> string"
  JSON_stringify :: "json_arg \<Rightarrow> string"
  entity_of_json :: "string \<Rightarrow> ApiKeyEntity option"

subsection \<open>The world\<close>

text \<open>
  Redis holds strings (\<^verbatim>\<open>set\<close>/\<^verbatim>\<open>get\<close>) and hashes (\<^verbatim>\<open>hset\<close>) in one key space, each
  with an optional time to live in seconds. The passing of time is not modelled.
\<close>

datatype redis_value = RString string | RHash "(string \<times> js_value) list"

datatype redis_cmd =
    Get string
  | Set string string
  | Expire string nat
  | Del string
  | HSet string "(string \<times> js_value) list"
  | Publish Channel string

text \<open>
  How redis behaves: \<open>Up\<close>, every call resolves at once; \<open>Failing\<close>, every call rejects;
  \<open>Slow\<close>, every call resolves, but only after the 1000 ms timer of \<^verbatim>\<open>getApiKey\<close> has
  fired (a call that is awaited without a timer is waited for).
\<close>

datatype redis_mode = Up | Failing | Slow

datatype store_call =
    Insert ApiKeyRecord                              \<comment> \<open>the insert of \<^verbatim>\<open>create\<close> and its values\<close>
  | Select string                                    \<comment> \<open>the select of \<^verbatim>\<open>getApiKey\<close> and its key\<close>
  | Update string "(string \<times> js_value) list"         \<comment> \<open>the statement of \<^verbatim>\<open>update\<close> and its values\<close>

datatype call = Redis redis_cmd | Store store_call | Notifier ApiKeyRecord

record world =
  apiKeys :: "string \<rightharpoonup> ApiKeyEntity"                   \<comment> \<open>\<^verbatim>\<open>ApiKeyManager.apiKeys\<close>\<close>
  redis_data :: "string \<rightharpoonup> redis_value \<times> nat option"
  redis_mode :: redis_mode
  published :: "(Channel \<times> string) list"               \<comment> \<open>messages delivered to the channel\<close>
  store_rows :: "row list"                              \<comment> \<open>the table \<^verbatim>\<open>api_keys\<close>\<close>
  store_fails :: bool                                   \<comment> \<open>every database call rejects\<close>
  notifier_fails :: bool                                \<comment> \<open>the webhook post rejects\<close>
  calls :: "call list"                                  \<comment> \<open>every call to a collaborator, in order\<close>
  logged :: "(string \<times> string \<times> error) list"          \<comment> \<open>\<^verbatim>\<open>logger.error\<close>: component, text, error\<close>

definition called :: "call \<Rightarrow> world \<Rightarrow> world" where
  "called c w = w\<lparr>calls := calls w @ [c]\<rparr>"

definition logger_error :: "string \<Rightarrow> string \<Rightarrow> error \<Rightarrow> world \<Rightarrow> world" where
  "logger_error component text e w = w\<lparr>logged := logged w @ [(component, text, e)]\<rparr>"

text \<open>JavaScript truthiness of a \<^verbatim>\<open>string | undefined | null\<close>: the empty string is falsy.\<close>

fun truthy :: "string option \<Rightarrow> bool" where
  "truthy None = False"
| "truthy (Some s) = (s \<noteq> [])"

text \<open>A template literal \<^verbatim>\<open>${x}\<close> of a \<^verbatim>\<open>string | undefined\<close>.\<close>

fun template :: "string option \<Rightarrow> string" where
  "template None = ''undefined''"
| "template (Some s) = s"

subsection \<open>Redis\<close>

text \<open>What a command does to a redis that answers, and its reply (\<open>Some s\<close> for a string).\<close>

fun redis_run :: "redis_cmd \<Rightarrow> world \<Rightarrow> world \<times> (error + string option)" where
  "redis_run (Get k) w =
     (case redis_data w k of
        None \<Rightarrow> (w, Inr None)
      | Some (RString s, _) \<Rightarrow> (w, Inr (Some s))
      | Some (RHash _, _) \<Rightarrow> (w, Inl WrongType))"
| "redis_run (Set k v) w = (w\<lparr>redis_data := (redis_data w)(k \<mapsto> (RString v, None))\<rparr>, Inr None)"
| "redis_run (Expire k n) w =
     (case redis_data w k of
        None \<Rightarrow> (w, Inr None)
      | Some (v, _) \<Rightarrow> (w\<lparr>redis_data := (redis_data w)(k \<mapsto> (v, Some n))\<rparr>, Inr None))"
| "redis_run (Del k) w = (w\<lparr>redis_data := (redis_data w)(k := None)\<rparr>, Inr None)"
| "redis_run (HSet k fs) w =
     (case redis_data w k of
        None \<Rightarrow> (w\<lparr>redis_data := (redis_data w)(k \<mapsto> (RHash fs, None))\<rparr>, Inr None)
      | Some (RHash old, t) \<Rightarrow>
          (w\<lparr>redis_data := (redis_data w)(k \<mapsto> (RHash (AList.updates (map fst fs) (map snd fs) old), t))\<rparr>,
           Inr None)
      | Some (RString _, _) \<Rightarrow> (w, Inl WrongType))"
| "redis_run (Publish c m) w = (w\<lparr>published := published w @ [(c, m)]\<rparr>, Inr None)"

text \<open>A call to the redis client: the call is made, and redis answers by its mode.\<close>

definition redis :: "redis_cmd \<Rightarrow> world \<Rightarrow> world \<times> (error + string option)" where
  "redis c w =
     (if redis_mode w = Failing then (called (Redis c) w, Inl RedisError)
      else redis_run c (called (Redis c) w))"

text \<open>
  \<^verbatim>\<open>Promise.race([p, timeout])\<close>, awaited: the timer resolves to \<^verbatim>\<open>null\<close> after 1000 ms,
  so a slow redis gives \<^verbatim>\<open>null\<close>, and otherwise the call's own outcome stands.
\<close>

definition race_timeout :: "world \<times> (error + string option) \<Rightarrow> world \<times> (error + string option)" where
  "race_timeout p = (if redis_mode (fst p) = Slow then (fst p, Inr None) else p)"

text \<open>A call that is not awaited (\<^verbatim>\<open>// Set in redis (no need to wait)\<close>): its outcome is dropped.\<close>

definition no_wait :: "world \<times> (error + string option) \<Rightarrow> world" where
  "no_wait p = fst p"

subsection \<open>The database\<close>

text \<open>
  Modelled from the spec: \<^verbatim>\<open>idb\<close> and \<^verbatim>\<open>redb\<close> (common/db.ts) are not in the sources; both
  are taken as connections to the one Source-of-Truth Store, whose primary key is \<^verbatim>\<open>key\<close>.
  A new row is active (the column is not among those the insert writes).
\<close>

definition row_of_record :: "ApiKeyRecord \<Rightarrow> row" where
  "row_of_record values =
     \<lparr>row_key = template (key values), row_app_name = app_name values,
      row_website = website values, row_email = email values, row_tier = tier values,
      row_active = True\<rparr>"

definition rows_with_key :: "string \<Rightarrow> row list \<Rightarrow> row list" where
  "rows_with_key k rows = filter (\<lambda>r. row_key r = k) rows"

text \<open>
  \<^verbatim>\<open>idb.oneOrNone("INSERT INTO api_keys (...) VALUES (...) ON CONFLICT DO NOTHING RETURNING 1", values)\<close>:
  the result is whether a row came back, that is, whether the row was inserted.
\<close>

definition idb_insert :: "ApiKeyRecord \<Rightarrow> world \<Rightarrow> world \<times> (error + bool)" where
  "idb_insert values w =
     (let w1 = called (Store (Insert values)) w in
      if store_fails w1 then (w1, Inl StoreError)
      else if rows_with_key (template (key values)) (store_rows w1) \<noteq> [] then (w1, Inr False)
      else (w1\<lparr>store_rows := store_rows w1 @ [row_of_record values]\<rparr>, Inr True))"

text \<open>\<^verbatim>\<open>redb.oneOrNone("SELECT * FROM api_keys WHERE key = $/key/ AND active = true", { key })\<close>\<close>

definition active_rows :: "string \<Rightarrow> row list \<Rightarrow> row list" where
  "active_rows k rows = filter (\<lambda>r. row_key r = k \<and> row_active r) rows"

definition redb_select :: "string \<Rightarrow> world \<Rightarrow> world \<times> (error + row option)" where
  "redb_select k w =
     (let w1 = called (Store (Select k)) w in
      if store_fails w1 then (w1, Inl StoreError)
      else (case active_rows k (store_rows w1) of
              [] \<Rightarrow> (w1, Inr None)
            | [r] \<Rightarrow> (w1, Inr (Some r))
            | _ \<Rightarrow> (w1, Inl MultipleRows)))"

text \<open>
  The statement of \<^verbatim>\<open>update\<close>, as the database sees it: \<open>sets\<close> is its SET clause, a
  list of (column, name of the property that holds the value), \<open>vals\<close> the values object;
  the row is chosen by the property \<^verbatim>\<open>key\<close>. A \<^verbatim>\<open>$/name/\<close> with no such property is
  refused by the client, an empty SET clause is no SQL, a column is set once and to a
  value of its type, and an update that would give two rows of a table one key is
  refused.
\<close>

fun column_ok :: "string \<Rightarrow> js_value \<Rightarrow> bool" where
  "column_ok c (JStr s) = (c = ''key'' \<or> c = ''app_name'' \<or> c = ''website'' \<or> c = ''email'')"
| "column_ok c (JNum n) = (c = ''tier'')"
| "column_ok c (JBool b) = (c = ''active'')"

fun set_column :: "string \<times> js_value \<Rightarrow> row \<Rightarrow> row" where
  "set_column (c, JStr s) r =
     (if c = ''key'' then r\<lparr>row_key := s\<rparr>
      else if c = ''app_name'' then r\<lparr>row_app_name := s\<rparr>
      else if c = ''website'' then r\<lparr>row_website := s\<rparr>
      else if c = ''email'' then r\<lparr>row_email := s\<rparr>
      else r)"
| "set_column (c, JNum n) r = (if c = ''tier'' then r\<lparr>row_tier := n\<rparr> else r)"
| "set_column (c, JBool b) r = (if c = ''active'' then r\<lparr>row_active := b\<rparr> else r)"

fun resolve :: "(string \<times> js_value) list \<Rightarrow> (string \<times> string) list \<Rightarrow> (string \<times> js_value) list option" where
  "resolve vals [] = Some []"
| "resolve vals ((c, p) # sets) =
     (case map_of vals p of
        None \<Rightarrow> None
      | Some v \<Rightarrow> (case resolve vals sets of None \<Rightarrow> None | Some as \<Rightarrow> Some ((c, v) # as)))"

definition update_rows :: "string \<Rightarrow> (string \<times> js_value) list \<Rightarrow> row list \<Rightarrow> row list" where
  "update_rows k as rows = map (\<lambda>r. if row_key r = k then fold set_column as r else r) rows"

text \<open>\<^verbatim>\<open>idb.none(query, replacementValues)\<close>\<close>

definition idb_update ::
  "string \<Rightarrow> (string \<times> string) list \<Rightarrow> (string \<times> js_value) list \<Rightarrow> world \<Rightarrow> world \<times> (error + unit)" where
  "idb_update query sets vals w =
     (let w1 = called (Store (Update query vals)) w in
      if store_fails w1 then (w1, Inl StoreError)
      else (case resolve vals sets of
              None \<Rightarrow> (w1, Inl MissingProperty)
            | Some as \<Rightarrow>
                if as = [] then (w1, Inl SqlSyntaxError)
                else if \<not> list_all (\<lambda>(c, v). column_ok c v) as \<or> \<not> distinct (map fst as)
                  then (w1, Inl SqlColumnError)
                else (case map_of vals ''key'' of
                        Some (JStr k) \<Rightarrow>
                          (let rows = update_rows k as (store_rows w1) in
                           if distinct (map row_key (store_rows w1)) \<and> \<not> distinct (map row_key rows)
                             then (w1, Inl UniqueViolation)
                           else (w1\<lparr>store_rows := rows\<rparr>, Inr ()))
                      | Some _ \<Rightarrow> (w1, Inl SqlColumnError)
                      | None \<Rightarrow> (w1, Inl MissingProperty))))"

subsection \<open>create\<close>

text \<open>
  \<^verbatim>\<open>if (!values.key) { values.key = getUuidByString(`${values.key}${values.email}${values.website}`); }\<close>
  The assignment changes the caller's object; the function returns it as it then is.
\<close>

definition assign_key :: "lib \<Rightarrow> ApiKeyRecord \<Rightarrow> ApiKeyRecord" where
  "assign_key l values =
     (if \<not> truthy (key values)
      then values\<lparr>key := Some (getUuidByString l (template (key values) @ email values @ website values))\<rparr>
      else values)"

text \<open>\<^verbatim>\<open>Object.entries(values)\<close>: the properties of the record, \<^verbatim>\<open>key\<close> when it is set.\<close>

definition entries :: "ApiKeyRecord \<Rightarrow> (string \<times> js_value) list" where
  "entries values =
     [(''app_name'', JStr (app_name values)), (''website'', JStr (website values)),
      (''email'', JStr (email values)), (''tier'', JNum (tier values))]
     @ (case key values of None \<Rightarrow> [] | Some k \<Rightarrow> [(''key'', JStr k)])"

text \<open>The webhook post of \<^verbatim>\<open>notifyApiKeyCreated\<close>, and its \<^verbatim>\<open>.catch(() => {})\<close>.\<close>

definition axios_post :: "ApiKeyRecord \<Rightarrow> world \<Rightarrow> world \<times> (error + unit)" where
  "axios_post values w =
     (called (Notifier values) w, if notifier_fails w then Inl NotifierError else Inr ())"

definition notifyApiKeyCreated :: "ApiKeyRecord \<Rightarrow> world \<Rightarrow> world" where
  "notifyApiKeyCreated values w =
     (case axios_post values w of
        (w1, Inl e) \<Rightarrow> w1
      | (w1, Inr u) \<Rightarrow> w1)"

text \<open>\<^verbatim>\<open>// Cache the key on redis for faster lookup\<close>: the \<^verbatim>\<open>hset\<close> and its \<^verbatim>\<open>catch\<close>.\<close>

definition cache_on_redis :: "ApiKeyRecord \<Rightarrow> world \<Rightarrow> world" where
  "cache_on_redis values w1 =
     (let redisKey = ''apikey:'' @ template (key values) in
      case redis (HSet redisKey (entries values)) w1 of
        (w2, Inl e) \<Rightarrow> logger_error ''api-key'' ''Unable to set the redis hash: '' e w2
      | (w2, Inr u) \<Rightarrow> w2)"

text \<open>The result is the world, the caller's \<^verbatim>\<open>values\<close> object as it is left, and the value returned.\<close>

definition create :: "lib \<Rightarrow> ApiKeyRecord \<Rightarrow> world \<Rightarrow> world \<times> ApiKeyRecord \<times> create_result" where
  "create l values0 w =
     (let values = assign_key l values0 in
      case idb_insert values w of
        (w1, Inl e) \<Rightarrow>
          (logger_error ''api-key'' ''Unable to create a new apikeys record: '' e w1, values, ReturnFalse)
      | (w1, Inr created) \<Rightarrow>
          (let w2 = cache_on_redis values w1;
               w3 = (if created then notifyApiKeyCreated values w2 else w2)
           in (w3, values, NewApiKeyResponse (template (key values)))))"

subsection \<open>deleteCachedApiKey\<close>

definition deleteCachedApiKey :: "string \<Rightarrow> world \<Rightarrow> world \<times> (error + unit)" where
  "deleteCachedApiKey k w =
     (let w1 = w\<lparr>apiKeys := (apiKeys w)(k := None)\<rparr> in
      case redis (Del (''api-key:'' @ k)) w1 of
        (w2, Inl e) \<Rightarrow> (w2, Inl e)
      | (w2, Inr u) \<Rightarrow> (w2, Inr ()))"

subsection \<open>getApiKey\<close>

text \<open>The \<^verbatim>\<open>try\<close> block: \<open>Inl e\<close> is an exception thrown in it, \<open>Inr r\<close> the value after it.\<close>

definition getApiKey_try :: "lib \<Rightarrow> string \<Rightarrow> world \<Rightarrow> world \<times> (error + ApiKeyEntity option)" where
  "getApiKey_try l k w =
     (let redisKey = ''api-key:'' @ k in
      case race_timeout (redis (Get redisKey) w) of
        (w1, Inl e) \<Rightarrow> (w1, Inl e)
      | (w1, Inr apiKey) \<Rightarrow>
          if truthy apiKey then
            (if apiKey = Some ''empty'' then (w1, Inr None)
             else (case entity_of_json l (template apiKey) of
                     None \<Rightarrow> (w1, Inl ParseError)
                   | Some apiKeyEntity \<Rightarrow>
                       (w1\<lparr>apiKeys := (apiKeys w1)(k \<mapsto> apiKeyEntity)\<rparr>, Inr (Some apiKeyEntity))))
          else
            (case redb_select k w1 of
               (w2, Inl e) \<Rightarrow> (w2, Inl e)
             | (w2, Inr (Some fromDb)) \<Rightarrow>
                 (let w3 = no_wait (redis (Set redisKey (JSON_stringify l (JsonRow fromDb))) w2);
                      apiKeyEntity = ApiKeyEntity fromDb
                  in (w3\<lparr>apiKeys := (apiKeys w3)(k \<mapsto> apiKeyEntity)\<rparr>, Inr (Some apiKeyEntity)))
             | (w2, Inr None) \<Rightarrow>
                 (let w3 = no_wait (redis (Set redisKey ''empty'') w2);
                      w4 = no_wait (redis (Expire redisKey (3600 * 24)) w3)
                  in (w4, Inr None))))"

definition getApiKey :: "lib \<Rightarrow> string \<Rightarrow> world \<Rightarrow> world \<times> ApiKeyEntity option" where
  "getApiKey l k w =
     (case apiKeys w k of
        Some cachedApiKey \<Rightarrow> (w, Some cachedApiKey)
      | None \<Rightarrow>
          (case getApiKey_try l k w of
             (w1, Inl e) \<Rightarrow>
               (logger_error ''get-api-key'' (''Failed to get '' @ k @ '' error: '') e w1, None)
           | (w1, Inr r) \<Rightarrow> (w1, r)))"

subsection \<open>update\<close>

text \<open>\<^verbatim>\<open>_.trimEnd(string, chars)\<close>: drops the trailing characters that occur in \<open>chars\<close>.\<close>

definition trimEnd :: "string \<Rightarrow> string \<Rightarrow> string" where
  "trimEnd s chars = rev (dropWhile (\<lambda>c. c \<in> set chars) (rev s))"

text \<open>
  The \<^verbatim>\<open>_.forEach(fields, ...)\<close> loop over the properties of \<^verbatim>\<open>fields\<close> (here \<open>flds\<close>) in
  order, \<open>None\<close> an undefined value; its state is \<open>updateString\<close> and \<open>replacementValues\<close>.
\<close>

fun forEach_fields ::
  "lib \<Rightarrow> (string \<times> js_value option) list \<Rightarrow> string \<times> (string \<times> js_value) list
     \<Rightarrow> string \<times> (string \<times> js_value) list" where
  "forEach_fields l [] st = st"
| "forEach_fields l ((fieldName, None) # flds) st = forEach_fields l flds st"
| "forEach_fields l ((fieldName, Some v) # flds) (updateString, replacementValues) =
     forEach_fields l flds
       (updateString @ snakeCase l fieldName @ '' = $/'' @ fieldName @ ''/,'',
        AList.update fieldName v replacementValues)"

text \<open>The fields with a defined value, and the SET clause that \<open>updateString\<close> spells.\<close>

fun defined :: "(string \<times> js_value option) list \<Rightarrow> (string \<times> js_value) list" where
  "defined [] = []"
| "defined ((fieldName, None) # flds) = defined flds"
| "defined ((fieldName, Some v) # flds) = (fieldName, v) # defined flds"

definition defined_fields :: "(string \<times> js_value option) list \<Rightarrow> string list" where
  "defined_fields flds = map fst (defined flds)"

definition set_clause :: "lib \<Rightarrow> (string \<times> js_value option) list \<Rightarrow> (string \<times> string) list" where
  "set_clause l flds = map (\<lambda>f. (snakeCase l f, f)) (defined_fields flds)"

definition update_query :: "string \<Rightarrow> string" where
  "update_query updateString =
     ''UPDATE api_keys'' @ [CHR 0x0A] @ replicate 19 CHR '' '' @ ''SET '' @ updateString
       @ [CHR 0x0A] @ replicate 19 CHR '' '' @ ''WHERE key = $/key/''"

definition update :: "lib \<Rightarrow> string \<Rightarrow> (string \<times> js_value option) list \<Rightarrow> world \<Rightarrow> world \<times> (error + unit)" where
  "update l k flds w =
     (case forEach_fields l flds ([], [(''key'', JStr k)]) of
        (updateString0, replacementValues) \<Rightarrow>
          (let updateString = trimEnd updateString0 '','';
               query = update_query updateString
           in case idb_update query (set_clause l flds) replacementValues w of
                (w1, Inl e) \<Rightarrow> (w1, Inl e)
              | (w1, Inr u) \<Rightarrow>
                  (case deleteCachedApiKey k w1 of
                     (w2, Inl e) \<Rightarrow> (w2, Inl e)
                   | (w2, Inr u) \<Rightarrow>
                       (case redis (Publish ApiKeyUpdated (JSON_stringify l (JsonKey k))) w2 of
                          (w3, Inl e) \<Rightarrow> (w3, Inl e)
                        | (w3, Inr r) \<Rightarrow> (w3, Inr ())))))"

subsection \<open>Reading the calls, and sample inputs\<close>

text \<open>The invocations of the webhook among the calls made.\<close>

fun notifier_calls :: "call list \<Rightarrow> ApiKeyRecord list" where
  "notifier_calls [] = []"
| "notifier_calls (Notifier v # cs) = v # notifier_calls cs"
| "notifier_calls (c # cs) = notifier_calls cs"

text \<open>One assignment of a SET clause, as \<^verbatim>\<open>update\<close> writes it for a field.\<close>

definition assignment :: "lib \<Rightarrow> string \<Rightarrow> string" where
  "assignment l fieldName = snakeCase l fieldName @ '' = $/'' @ fieldName @ ''/''"

text \<open>A list of strings with a separator between its members and none after the last.\<close>

fun join :: "string \<Rightarrow> string list \<Rightarrow> string" where
  "join sep [] = []"
| "join sep [x] = x"
| "join sep (x # y # ys) = x @ sep @ join sep (y # ys)"

text \<open>
  A library to evaluate with, an idle world with nothing cached and an empty table, a
  row and a record.
\<close>

definition demo_lib :: lib where
  "demo_lib =
     \<lparr>getUuidByString = (\<lambda>s. ''uuid:'' @ s), snakeCase = (\<lambda>s. s),
      JSON_stringify =
        (\<lambda>j. case j of JsonRow r \<Rightarrow> ''{row '' @ row_key r @ ''}'' | JsonKey k \<Rightarrow> ''{key '' @ k @ ''}''),
      entity_of_json = (\<lambda>s. None)\<rparr>"

definition world0 :: world where
  "world0 =
     \<lparr>apiKeys = Map.empty, redis_data = Map.empty, redis_mode = Up, published = [],
      store_rows = [], store_fails = False, notifier_fails = False, calls = [], logged = []\<rparr>"

definition row_abc :: row where
  "row_abc =
     \<lparr>row_key = ''abc'', row_app_name = ''Foo'', row_website = ''foo.xyz'',
      row_email = ''a@b.com'', row_tier = 1, row_active = True\<rparr>"

definition foo :: ApiKeyRecord where
  "foo = \<lparr>app_name = ''Foo'', website = ''foo.xyz'', email = ''a@b.com'', tier = 1, key = None\<rparr>"

text \<open>
  The idle world with the row \<open>row_abc\<close> in the table, and that world after a lookup of
  \<^verbatim>\<open>abc\<close> has cached the row in both tiers.
\<close>

definition world_abc :: world where
  "world_abc = world0\<lparr>store_rows := [row_abc]\<rparr>"

definition world_cached :: world where
  "world_cached =
     world_abc\<lparr>apiKeys := [''abc'' \<mapsto> ApiKeyEntity row_abc],
               redis_data := [''api-key:abc'' \<mapsto> (RString ''{row abc}'', None)]\<rparr>"

section \<open>Properties\<close>

subsection \<open>Redis and the database leave the rest of the world alone\<close>

lemma redis_run_frame:
  "apiKeys (fst (redis_run c w)) = apiKeys w"
  "redis_mode (fst (redis_run c w)) = redis_mode w"
  "store_rows (fst (redis_run c w)) = store_rows w"
  "store_fails (fst (redis_run c w)) = store_fails w"
  "notifier_fails (fst (redis_run c w)) = notifier_fails w"
  "calls (fst (redis_run c w)) = calls w"
  "logged (fst (redis_run c w)) = logged w"
  by (cases c; simp split: option.split redis_value.split prod.split)+

lemma redis_frame:
  "apiKeys (fst (redis c w)) = apiKeys w"
  "redis_mode (fst (redis c w)) = redis_mode w"
  "store_rows (fst (redis c w)) = store_rows w"
  "store_fails (fst (redis c w)) = store_fails w"
  "notifier_fails (fst (redis c w)) = notifier_fails w"
  "calls (fst (redis c w)) = calls w @ [Redis c]"
  "logged (fst (redis c w)) = logged w"
  by (simp_all add: redis_def redis_run_frame called_def)

lemma cache_on_redis_frame:
  "apiKeys (cache_on_redis v w) = apiKeys w"
  "store_rows (cache_on_redis v w) = store_rows w"
  "notifier_fails (cache_on_redis v w) = notifier_fails w"
  "store_fails (cache_on_redis v w) = store_fails w"
  "calls (cache_on_redis v w) = calls w @ [Redis (HSet (''apikey:'' @ template (key v)) (entries v))]"
  by (simp_all add: cache_on_redis_def logger_error_def split: prod.split sum.split)
     (metis fst_conv redis_frame)+

lemma idb_insert_cases:
  "idb_insert v w =
     (if store_fails w then (called (Store (Insert v)) w, Inl StoreError)
      else if rows_with_key (template (key v)) (store_rows w) \<noteq> []
        then (called (Store (Insert v)) w, Inr False)
      else ((called (Store (Insert v)) w)\<lparr>store_rows := store_rows w @ [row_of_record v]\<rparr>, Inr True))"
  by (simp add: idb_insert_def called_def Let_def)

subsection \<open>create\<close>

lemma assign_key_falsy:
  "\<not> truthy (key v) \<Longrightarrow>
     assign_key l v = v\<lparr>key := Some (getUuidByString l (template (key v) @ email v @ website v))\<rparr>"
  by (simp add: assign_key_def)

lemma create_values: "fst (snd (create l v w)) = assign_key l v"
  by (simp add: create_def Let_def split: prod.split sum.split)

lemma create_calls:
  "calls (fst (create l v w)) =
     calls w @ [Store (Insert (assign_key l v))] @
       (if store_fails w then []
        else [Redis (HSet (''apikey:'' @ template (key (assign_key l v))) (entries (assign_key l v)))] @
          (if rows_with_key (template (key (assign_key l v))) (store_rows w) = []
           then [Notifier (assign_key l v)] else []))"
  by (simp add: create_def idb_insert_cases Let_def cache_on_redis_frame notifyApiKeyCreated_def
      axios_post_def called_def logger_error_def)

lemma create_store_rows:
  "store_rows (fst (create l v w)) =
     (if \<not> store_fails w \<and> rows_with_key (template (key (assign_key l v))) (store_rows w) = []
      then store_rows w @ [row_of_record (assign_key l v)] else store_rows w)"
  by (simp add: create_def idb_insert_cases Let_def cache_on_redis_frame notifyApiKeyCreated_def
      axios_post_def called_def logger_error_def)

lemma create_store_fails:
  "store_fails w \<Longrightarrow>
     create l v w =
       (logger_error ''api-key'' ''Unable to create a new apikeys record: '' StoreError
          (called (Store (Insert (assign_key l v))) w), assign_key l v, ReturnFalse)"
  by (simp add: create_def idb_insert_cases Let_def)

lemma create_result:
  "snd (snd (create l v w)) =
     (if store_fails w then ReturnFalse else NewApiKeyResponse (template (key (assign_key l v))))"
  by (simp add: create_def idb_insert_cases Let_def)

lemma create_store_fails_kept: "store_fails (fst (create l v w)) = store_fails w"
  by (simp add: create_def idb_insert_cases Let_def cache_on_redis_frame notifyApiKeyCreated_def
      axios_post_def called_def logger_error_def)

lemma notifier_calls_append: "notifier_calls (xs @ ys) = notifier_calls xs @ notifier_calls ys"
  by (induction xs rule: notifier_calls.induct) simp_all

text \<open>
  C3, as the code has it. Two \<^verbatim>\<open>create\<close> calls whose records carry no key in the same
  way (the property absent in both, or the empty string in both) and agree on email and
  website leave the same key in the record, in whatever world each is made. It is
  \<^verbatim>\<open>getUuidByString\<close> of \<^verbatim>\<open>"undefined"\<close>, the email and the website when the property is
  absent, and of the email and the website alone when it is the empty string; a call
  that does not return \<^verbatim>\<open>false\<close> returns that key.
\<close>

theorem create_derived_key_deterministic:
  assumes "\<not> truthy (key va)" and "key vb = key va"
    and "email va = email vb" and "website va = website vb"
  shows "key (fst (snd (create l va wa))) = key (fst (snd (create l vb wb))) \<and>
         key (fst (snd (create l va wa))) =
           Some (getUuidByString l
                   ((if key va = None then ''undefined'' else []) @ email va @ website va)) \<and>
         snd (snd (create l va wa)) \<in>
           {ReturnFalse,
            NewApiKeyResponse (getUuidByString l
                   ((if key va = None then ''undefined'' else []) @ email va @ website va))}"
proof (cases "key va")
  case None
  with assms show ?thesis
    by (simp add: create_values create_result assign_key_def)
next
  case (Some s)
  with assms(1) have "s = []"
    by simp
  with Some assms show ?thesis
    by (simp add: create_values create_result assign_key_def)
qed

theorem create_derived_key_deterministic_witness:
  "key (fst (snd (create demo_lib foo world0))) =
     key (fst (snd (create demo_lib (foo\<lparr>app_name := ''Bar'', tier := 2\<rparr>) (world0\<lparr>store_fails := True\<rparr>)))) \<and>
   key (fst (snd (create demo_lib foo world0))) = Some ''uuid:undefineda@b.comfoo.xyz'' \<and>
   snd (snd (create demo_lib foo world0)) = NewApiKeyResponse ''uuid:undefineda@b.comfoo.xyz'' \<and>
   key (fst (snd (create demo_lib (foo\<lparr>key := Some []\<rparr>) world0))) =
     key (fst (snd (create demo_lib (foo\<lparr>tier := 2, key := Some []\<rparr>) world0))) \<and>
   key (fst (snd (create demo_lib (foo\<lparr>key := Some []\<rparr>) world0))) = Some ''uuid:a@b.comfoo.xyz''"
proof -
  have h: "\<not> truthy (key foo)" "key (foo\<lparr>app_name := ''Bar'', tier := 2\<rparr>) = key foo"
    "email foo = email (foo\<lparr>app_name := ''Bar'', tier := 2\<rparr>)"
    "website foo = website (foo\<lparr>app_name := ''Bar'', tier := 2\<rparr>)"
    by (simp_all add: foo_def)
  have g: "\<not> truthy (key (foo\<lparr>key := Some []\<rparr>))"
    "key (foo\<lparr>tier := 2, key := Some []\<rparr>) = key (foo\<lparr>key := Some []\<rparr>)"
    "email (foo\<lparr>key := Some []\<rparr>) = email (foo\<lparr>tier := 2, key := Some []\<rparr>)"
    "website (foo\<lparr>key := Some []\<rparr>) = website (foo\<lparr>tier := 2, key := Some []\<rparr>)"
    by simp_all
  have u: "getUuidByString demo_lib (''undefined'' @ email foo @ website foo) = ''uuid:undefineda@b.comfoo.xyz''"
    "getUuidByString demo_lib (email foo @ website foo) = ''uuid:a@b.comfoo.xyz''"
    "key foo = None"
    by (simp_all add: demo_lib_def foo_def)
  have r: "snd (snd (create demo_lib foo world0)) \<noteq> ReturnFalse"
    by (simp add: create_result world0_def)
  from create_derived_key_deterministic [OF h, of demo_lib world0 "world0\<lparr>store_fails := True\<rparr>"]
    create_derived_key_deterministic [OF g, of demo_lib world0 world0] u r
  show ?thesis by auto
qed

text \<open>
  C3 as stated fails: an absent key and the empty string both count as no key for
  \<^verbatim>\<open>create\<close>, and for the same email and website the one is derived from
  \<^verbatim>\<open>undefineda@b.comfoo.xyz\<close> and the other from \<^verbatim>\<open>a@b.comfoo.xyz\<close>, so two different
  keys wherever \<^verbatim>\<open>getUuidByString\<close> tells these strings apart.
\<close>

theorem create_derived_key_counterexample:
  "\<not> truthy (key foo) \<and> \<not> truthy (key (foo\<lparr>key := Some []\<rparr>)) \<and>
   email foo = email (foo\<lparr>key := Some []\<rparr>) \<and> website foo = website (foo\<lparr>key := Some []\<rparr>) \<and>
   key (fst (snd (create demo_lib foo world0))) = Some ''uuid:undefineda@b.comfoo.xyz'' \<and>
   key (fst (snd (create demo_lib (foo\<lparr>key := Some []\<rparr>) world0))) = Some ''uuid:a@b.comfoo.xyz'' \<and>
   key (fst (snd (create demo_lib foo world0))) \<noteq>
     key (fst (snd (create demo_lib (foo\<lparr>key := Some []\<rparr>) world0)))"
  by (simp add: create_values assign_key_def foo_def demo_lib_def)

text \<open>
  C9. When the record carries no key (none, or the empty string), \<^verbatim>\<open>create\<close> leaves the
  derived key in the caller's record; the first call it makes is the insert, with the
  record as changed; and when the insert rejects, \<^verbatim>\<open>create\<close> logs, returns \<^verbatim>\<open>false\<close> and
  the record keeps the derived key.
\<close>

theorem create_assigns_key_in_place:
  assumes "\<not> truthy (key v)"
  shows "fst (snd (create l v w)) =
           v\<lparr>key := Some (getUuidByString l (template (key v) @ email v @ website v))\<rparr> \<and>
         take (Suc (length (calls w))) (calls (fst (create l v w))) =
           calls w @ [Store (Insert (v\<lparr>key := Some (getUuidByString l (template (key v) @ email v @ website v))\<rparr>))] \<and>
         create l v (w\<lparr>store_fails := True\<rparr>) =
           (logger_error ''api-key'' ''Unable to create a new apikeys record: '' StoreError
              (called (Store (Insert (v\<lparr>key := Some (getUuidByString l (template (key v) @ email v @ website v))\<rparr>)))
                 (w\<lparr>store_fails := True\<rparr>)),
            v\<lparr>key := Some (getUuidByString l (template (key v) @ email v @ website v))\<rparr>,
            ReturnFalse)"
  using assms
  by (simp add: create_values create_calls create_store_fails assign_key_falsy)

theorem create_assigns_key_in_place_witness:
  "\<not> truthy (key foo) \<and>
   fst (snd (create demo_lib foo (world0\<lparr>store_fails := True\<rparr>))) =
     foo\<lparr>key := Some ''uuid:undefineda@b.comfoo.xyz''\<rparr> \<and>
   snd (snd (create demo_lib foo (world0\<lparr>store_fails := True\<rparr>))) = ReturnFalse \<and>
   calls (fst (create demo_lib foo (world0\<lparr>store_fails := True\<rparr>))) =
     [Store (Insert (foo\<lparr>key := Some ''uuid:undefineda@b.comfoo.xyz''\<rparr>))]"
proof -
  have h: "\<not> truthy (key foo)"
    by (simp add: foo_def)
  have u: "getUuidByString demo_lib (template (key foo) @ email foo @ website foo) = ''uuid:undefineda@b.comfoo.xyz''"
    by (simp add: demo_lib_def foo_def)
  have c: "calls (world0\<lparr>store_fails := True\<rparr>) = []"
    by (simp add: world0_def)
  from create_assigns_key_in_place [OF h, of demo_lib "world0\<lparr>store_fails := True\<rparr>"] h u c
  show ?thesis by (simp add: called_def logger_error_def)
qed

text \<open>
  C4. \<^verbatim>\<open>create\<close> calls the webhook once when the insert adds a row to the table, and not
  at all when the table stays as it was (a row with the key exists, or the insert
  rejects); and neither the record it leaves nor the value it returns depends on whether
  the webhook post fails.
\<close>

theorem create_notifies_exactly_on_insert:
  "store_rows (fst (create l v w)) =
     (if \<not> store_fails w \<and> rows_with_key (template (key (assign_key l v))) (store_rows w) = []
      then store_rows w @ [row_of_record (assign_key l v)] else store_rows w) \<and>
   notifier_calls (calls (fst (create l v w))) =
     notifier_calls (calls w) @
       (if \<not> store_fails w \<and> rows_with_key (template (key (assign_key l v))) (store_rows w) = []
        then [assign_key l v] else []) \<and>
   snd (create l v (w\<lparr>notifier_fails := b\<rparr>)) = snd (create l v w)"
  by (simp add: create_store_rows create_calls notifier_calls_append create_values create_result
      prod_eq_iff)

theorem create_notifies_exactly_on_insert_witness:
  "notifier_calls (calls (fst (create demo_lib foo world0))) =
     [foo\<lparr>key := Some ''uuid:undefineda@b.comfoo.xyz''\<rparr>] \<and>
   notifier_calls (calls (fst (create demo_lib foo (fst (create demo_lib foo world0))))) =
     [foo\<lparr>key := Some ''uuid:undefineda@b.comfoo.xyz''\<rparr>] \<and>
   snd (create demo_lib foo (world0\<lparr>notifier_fails := True\<rparr>)) = snd (create demo_lib foo world0)"
proof -
  let ?w = "fst (create demo_lib foo world0)"
  have a: "assign_key demo_lib foo = foo\<lparr>key := Some ''uuid:undefineda@b.comfoo.xyz''\<rparr>"
    by (simp add: assign_key_def demo_lib_def foo_def)
  have w0: "\<not> store_fails world0" "store_rows world0 = []" "calls world0 = []"
    by (simp_all add: world0_def)
  have f: "store_fails ?w = store_fails world0"
    by (rule create_store_fails_kept)
  have k: "template (key (foo\<lparr>key := Some ''uuid:undefineda@b.comfoo.xyz''\<rparr>)) = ''uuid:undefineda@b.comfoo.xyz''"
    "row_key (row_of_record (foo\<lparr>key := Some ''uuid:undefineda@b.comfoo.xyz''\<rparr>)) = ''uuid:undefineda@b.comfoo.xyz''"
    by (simp_all add: row_of_record_def)
  from create_notifies_exactly_on_insert [of demo_lib foo world0 True]
    create_notifies_exactly_on_insert [of demo_lib foo ?w True]
  show ?thesis
    by (simp add: a w0 f k rows_with_key_def)
qed

subsection \<open>getApiKey\<close>

lemma getApiKey_local_hit: "apiKeys w k = Some e \<Longrightarrow> getApiKey l k w = (w, Some e)"
  by (simp add: getApiKey_def)

lemma getApiKey_try_redis_failing:
  "redis_mode w = Failing \<Longrightarrow>
     getApiKey_try l k w = (called (Redis (Get (''api-key:'' @ k))) w, Inl RedisError)"
  by (simp add: getApiKey_try_def redis_def race_timeout_def called_def)

lemma redis_get_miss:
  assumes "redis_mode w \<noteq> Failing" and "redis_mode w = Slow \<or> redis_data w rk = None"
  shows "race_timeout (redis (Get rk) w) = (called (Redis (Get rk)) w, Inr None)"
  using assms
  by (auto simp add: redis_def race_timeout_def called_def split: option.split prod.split redis_value.split)

lemma redb_select_one:
  "\<not> store_fails w \<Longrightarrow> active_rows k (store_rows w) = [r] \<Longrightarrow>
     redb_select k w = (called (Store (Select k)) w, Inr (Some r))"
  by (simp add: redb_select_def called_def Let_def)

lemma redb_select_none:
  "\<not> store_fails w \<Longrightarrow> active_rows k (store_rows w) = [] \<Longrightarrow>
     redb_select k w = (called (Store (Select k)) w, Inr None)"
  by (simp add: redb_select_def called_def Let_def)


lemma redis_set_no_wait:
  "redis_mode w \<noteq> Failing \<Longrightarrow>
     no_wait (redis (Set rk v) w) =
       w\<lparr>redis_data := (redis_data w)(rk \<mapsto> (RString v, None)), calls := calls w @ [Redis (Set rk v)]\<rparr>"
  by (simp add: no_wait_def redis_def called_def)

lemma redis_expire_no_wait:
  "redis_mode w \<noteq> Failing \<Longrightarrow> redis_data w rk = Some (v, t) \<Longrightarrow>
     no_wait (redis (Expire rk n) w) =
       w\<lparr>redis_data := (redis_data w)(rk \<mapsto> (v, Some n)), calls := calls w @ [Redis (Expire rk n)]\<rparr>"
  by (simp add: no_wait_def redis_def called_def)

lemma getApiKey_try_store_hit:
  assumes "redis_mode w \<noteq> Failing" and "redis_mode w = Slow \<or> redis_data w (''api-key:'' @ k) = None"
    and "\<not> store_fails w" and "active_rows k (store_rows w) = [r]"
  shows "getApiKey_try l k w =
           (w\<lparr>apiKeys := (apiKeys w)(k \<mapsto> ApiKeyEntity r),
              redis_data := (redis_data w)(''api-key:'' @ k \<mapsto> (RString (JSON_stringify l (JsonRow r)), None)),
              calls := calls w @ [Redis (Get (''api-key:'' @ k)), Store (Select k),
                                  Redis (Set (''api-key:'' @ k) (JSON_stringify l (JsonRow r)))]\<rparr>,
            Inr (Some (ApiKeyEntity r)))"
proof -
  define rk where "rk = ''api-key:'' @ k"
  let ?w1 = "called (Redis (Get rk)) w"
  let ?w2 = "called (Store (Select k)) ?w1"
  have g: "race_timeout (redis (Get rk) w) = (?w1, Inr None)"
    using assms(1,2) unfolding rk_def by (rule redis_get_miss)
  have s: "redb_select k ?w1 = (?w2, Inr (Some r))"
    using assms by (intro redb_select_one) (simp_all add: called_def)
  have m: "redis_mode ?w2 \<noteq> Failing"
    using assms(1) by (simp add: called_def)
  show ?thesis
    unfolding getApiKey_try_def Let_def rk_def [symmetric]
    by (simp add: g s redis_set_no_wait [OF m]) (simp add: called_def)
qed

lemma getApiKey_try_store_miss:
  assumes "redis_mode w \<noteq> Failing" and "redis_mode w = Slow \<or> redis_data w (''api-key:'' @ k) = None"
    and "\<not> store_fails w" and "active_rows k (store_rows w) = []"
  shows "getApiKey_try l k w =
           (w\<lparr>redis_data := (redis_data w)(''api-key:'' @ k \<mapsto> (RString ''empty'', Some 86400)),
              calls := calls w @ [Redis (Get (''api-key:'' @ k)), Store (Select k),
                                  Redis (Set (''api-key:'' @ k) ''empty''),
                                  Redis (Expire (''api-key:'' @ k) 86400)]\<rparr>,
            Inr None)"
proof -
  define rk where "rk = ''api-key:'' @ k"
  let ?w1 = "called (Redis (Get rk)) w"
  let ?w2 = "called (Store (Select k)) ?w1"
  have g: "race_timeout (redis (Get rk) w) = (?w1, Inr None)"
    using assms(1,2) unfolding rk_def by (rule redis_get_miss)
  have s: "redb_select k ?w1 = (?w2, Inr None)"
    using assms by (intro redb_select_none) (simp_all add: called_def)
  have m: "redis_mode ?w2 \<noteq> Failing"
    using assms(1) by (simp add: called_def)
  show ?thesis
    unfolding getApiKey_try_def Let_def rk_def [symmetric]
    using assms(1)
    by (simp add: g s redis_set_no_wait [OF m]) (simp add: no_wait_def redis_def called_def)
qed


lemma getApiKey_miss: "apiKeys w k = None \<Longrightarrow>
  getApiKey l k w = (case getApiKey_try l k w of
             (w1, Inl e) \<Rightarrow>
               (logger_error ''get-api-key'' (''Failed to get '' @ k @ '' error: '') e w1, None)
           | (w1, Inr r) \<Rightarrow> (w1, r))"
  by (simp only: getApiKey_def option.case)

text \<open>
  Whatever makes the raced read throw, the \<^verbatim>\<open>catch\<close> logs it and \<^verbatim>\<open>getApiKey\<close> returns
  \<^verbatim>\<open>null\<close> in the world the read left.
\<close>

lemma getApiKey_read_throws:
  assumes "apiKeys w k = None"
    and "race_timeout (redis (Get (''api-key:'' @ k)) w) = (w1, Inl e)"
  shows "getApiKey l k w =
           (logger_error ''get-api-key'' (''Failed to get '' @ k @ '' error: '') e w1, None)"
proof -
  have "getApiKey_try l k w = (w1, Inl e)"
    unfolding getApiKey_try_def Let_def
    by (simp only: assms(2) prod.case sum.case)
  then show ?thesis
    by (simp only: getApiKey_miss [OF assms(1)] prod.case sum.case)
qed

lemma world_abc_facts:
  "apiKeys world_abc k = None" "redis_data world_abc rk = None" "redis_mode world_abc = Up"
  "\<not> store_fails world_abc" "calls world_abc = []" "logged world_abc = []"
  "store_rows world_abc = [row_abc]" "published world_abc = []"
  by (simp_all add: world_abc_def world0_def)

lemma active_rows_abc: "active_rows ''abc'' [row_abc] = [row_abc]"
  by (simp add: active_rows_def row_abc_def)

text \<open>
  C1 fails on the code. The key \<^verbatim>\<open>abc\<close> has an active row in a table that answers and
  is not in the process-local map. With redis rejecting its calls, \<^verbatim>\<open>getApiKey\<close> makes the
  read, logs the failure and returns \<^verbatim>\<open>null\<close>: no select follows. The same holds when
  the read errors on a redis that is up, because the key holds a hash. With the read
  timing out instead, in the same world, the select is made and the entity returned.
\<close>

theorem getApiKey_redis_error_skips_store:
  "apiKeys world_abc ''abc'' = None \<and> \<not> store_fails world_abc \<and>
   active_rows ''abc'' (store_rows world_abc) = [row_abc] \<and> row_active row_abc \<and>
   getApiKey demo_lib ''abc'' (world_abc\<lparr>redis_mode := Failing\<rparr>) =
     (world_abc\<lparr>redis_mode := Failing, calls := [Redis (Get ''api-key:abc'')],
        logged := [(''get-api-key'', ''Failed to get abc error: '', RedisError)]\<rparr>, None) \<and>
   getApiKey demo_lib ''abc'' (world_abc\<lparr>redis_data := [''api-key:abc'' \<mapsto> (RHash [], None)]\<rparr>) =
     (world_abc\<lparr>redis_data := [''api-key:abc'' \<mapsto> (RHash [], None)],
        calls := [Redis (Get ''api-key:abc'')],
        logged := [(''get-api-key'', ''Failed to get abc error: '', WrongType)]\<rparr>, None) \<and>
   snd (getApiKey demo_lib ''abc'' (world_abc\<lparr>redis_mode := Slow\<rparr>)) = Some (ApiKeyEntity row_abc) \<and>
   calls (fst (getApiKey demo_lib ''abc'' (world_abc\<lparr>redis_mode := Slow\<rparr>))) =
     [Redis (Get ''api-key:abc''), Store (Select ''abc''), Redis (Set ''api-key:abc'' ''{row abc}'')]"
proof -
  let ?f = "world_abc\<lparr>redis_mode := Failing\<rparr>"
  let ?h = "world_abc\<lparr>redis_data := [''api-key:abc'' \<mapsto> (RHash [], None)]\<rparr>"
  let ?s = "world_abc\<lparr>redis_mode := Slow\<rparr>"
  have rf: "race_timeout (redis (Get (''api-key:'' @ ''abc'')) ?f) = (called (Redis (Get ''api-key:abc'')) ?f, Inl RedisError)"
    by (simp add: race_timeout_def redis_def called_def)
  have rh: "race_timeout (redis (Get (''api-key:'' @ ''abc'')) ?h) = (called (Redis (Get ''api-key:abc'')) ?h, Inl WrongType)"
    by (simp add: race_timeout_def redis_def called_def world_abc_facts)
  have a: "getApiKey demo_lib ''abc'' ?f =
     (world_abc\<lparr>redis_mode := Failing, calls := [Redis (Get ''api-key:abc'')],
        logged := [(''get-api-key'', ''Failed to get abc error: '', RedisError)]\<rparr>, None)"
    by (simp add: getApiKey_read_throws [OF _ rf] world_abc_facts logger_error_def called_def)
  have b: "getApiKey demo_lib ''abc'' ?h =
     (world_abc\<lparr>redis_data := [''api-key:abc'' \<mapsto> (RHash [], None)],
        calls := [Redis (Get ''api-key:abc'')],
        logged := [(''get-api-key'', ''Failed to get abc error: '', WrongType)]\<rparr>, None)"
    by (simp add: getApiKey_read_throws [OF _ rh] world_abc_facts logger_error_def called_def)
  have hs: "redis_mode ?s \<noteq> Failing" "redis_mode ?s = Slow \<or> redis_data ?s (''api-key:'' @ ''abc'') = None"
    "\<not> store_fails ?s" "active_rows ''abc'' (store_rows ?s) = [row_abc]"
    by (simp_all add: world_abc_facts active_rows_abc)
  have j: "JSON_stringify demo_lib (JsonRow row_abc) = ''{row abc}''"
    by (simp add: demo_lib_def row_abc_def)
  have c: "snd (getApiKey demo_lib ''abc'' ?s) = Some (ApiKeyEntity row_abc)"
    "calls (fst (getApiKey demo_lib ''abc'' ?s)) =
       [Redis (Get ''api-key:abc''), Store (Select ''abc''), Redis (Set ''api-key:abc'' ''{row abc}'')]"
    by (simp_all add: getApiKey_miss getApiKey_try_store_hit [OF hs, of demo_lib] world_abc_facts j)
  have d: "row_active row_abc"
    by (simp add: row_abc_def)
  show ?thesis
    by (simp only: a b c d world_abc_facts active_rows_abc simp_thms)
qed

text \<open>
  C6. For a key that is in neither cache and has one active row in the table, with
  redis not rejecting and the table answering, the first \<^verbatim>\<open>getApiKey\<close> returns the
  entity of the row, puts it in the process-local map and writes its JSON to redis under
  \<^verbatim>\<open>api-key:\<close> and the key with no expiry; a second call returns the same entity and
  leaves the world as it is, so it makes no call to the table or to redis.
\<close>

theorem getApiKey_populates_then_serves_locally:
  assumes "apiKeys w k = None" and "redis_data w (''api-key:'' @ k) = None"
    and "redis_mode w \<noteq> Failing" and "\<not> store_fails w" and "active_rows k (store_rows w) = [r]"
  shows "getApiKey l k w =
           (w\<lparr>apiKeys := (apiKeys w)(k \<mapsto> ApiKeyEntity r),
              redis_data := (redis_data w)(''api-key:'' @ k \<mapsto> (RString (JSON_stringify l (JsonRow r)), None)),
              calls := calls w @ [Redis (Get (''api-key:'' @ k)), Store (Select k),
                                  Redis (Set (''api-key:'' @ k) (JSON_stringify l (JsonRow r)))]\<rparr>,
            Some (ApiKeyEntity r)) \<and>
         getApiKey l k (fst (getApiKey l k w)) = (fst (getApiKey l k w), Some (ApiKeyEntity r)) \<and>
         calls (fst (getApiKey l k (fst (getApiKey l k w)))) = calls (fst (getApiKey l k w))"
proof -
  have t: "redis_mode w = Slow \<or> redis_data w (''api-key:'' @ k) = None"
    using assms(2) by simp
  note first = getApiKey_try_store_hit [OF assms(3) t assms(4,5), of l]
  have a: "getApiKey l k w =
           (w\<lparr>apiKeys := (apiKeys w)(k \<mapsto> ApiKeyEntity r),
              redis_data := (redis_data w)(''api-key:'' @ k \<mapsto> (RString (JSON_stringify l (JsonRow r)), None)),
              calls := calls w @ [Redis (Get (''api-key:'' @ k)), Store (Select k),
                                  Redis (Set (''api-key:'' @ k) (JSON_stringify l (JsonRow r)))]\<rparr>,
            Some (ApiKeyEntity r))"
    by (simp only: getApiKey_miss [OF assms(1)] first prod.case sum.case)
  have b: "apiKeys (fst (getApiKey l k w)) k = Some (ApiKeyEntity r)"
    by (simp only: a fst_conv) simp
  show ?thesis
    using a getApiKey_local_hit [OF b, of l] by simp
qed

theorem getApiKey_populates_then_serves_locally_witness:
  "snd (getApiKey demo_lib ''abc'' world_abc) = Some (ApiKeyEntity row_abc) \<and>
   apiKeys (fst (getApiKey demo_lib ''abc'' world_abc)) ''abc'' = Some (ApiKeyEntity row_abc) \<and>
   redis_data (fst (getApiKey demo_lib ''abc'' world_abc)) ''api-key:abc'' =
     Some (RString ''{row abc}'', None) \<and>
   calls (fst (getApiKey demo_lib ''abc'' world_abc)) =
     [Redis (Get ''api-key:abc''), Store (Select ''abc''), Redis (Set ''api-key:abc'' ''{row abc}'')] \<and>
   getApiKey demo_lib ''abc'' (fst (getApiKey demo_lib ''abc'' world_abc)) =
     (fst (getApiKey demo_lib ''abc'' world_abc), Some (ApiKeyEntity row_abc))"
proof -
  have h: "apiKeys world_abc ''abc'' = None" "redis_data world_abc (''api-key:'' @ ''abc'') = None"
    "redis_mode world_abc \<noteq> Failing" "\<not> store_fails world_abc"
    "active_rows ''abc'' (store_rows world_abc) = [row_abc]"
    by (simp_all add: world_abc_facts active_rows_abc)
  have j: "JSON_stringify demo_lib (JsonRow row_abc) = ''{row abc}''"
    by (simp add: demo_lib_def row_abc_def)
  note t = getApiKey_populates_then_serves_locally [OF h, of demo_lib]
  note first = t [THEN conjunct1]
  show ?thesis
  proof (intro conjI)
    show "getApiKey demo_lib ''abc'' (fst (getApiKey demo_lib ''abc'' world_abc)) =
       (fst (getApiKey demo_lib ''abc'' world_abc), Some (ApiKeyEntity row_abc))"
      by (rule t [THEN conjunct2, THEN conjunct1])
  qed (simp_all add: first world_abc_facts j)
qed

text \<open>
  C8. With a redis whose every call outlasts the timer, a key that is not in the
  process-local map and has one active row in a table that answers: \<^verbatim>\<open>getApiKey\<close> goes on
  to the select and returns the entity of the row; nothing is thrown in the \<^verbatim>\<open>try\<close>
  block and nothing is logged.
\<close>

theorem getApiKey_slow_redis_falls_through:
  assumes "apiKeys w k = None" and "redis_mode w = Slow"
    and "\<not> store_fails w" and "active_rows k (store_rows w) = [r]"
  shows "getApiKey l k w =
           (w\<lparr>apiKeys := (apiKeys w)(k \<mapsto> ApiKeyEntity r),
              redis_data := (redis_data w)(''api-key:'' @ k \<mapsto> (RString (JSON_stringify l (JsonRow r)), None)),
              calls := calls w @ [Redis (Get (''api-key:'' @ k)), Store (Select k),
                                  Redis (Set (''api-key:'' @ k) (JSON_stringify l (JsonRow r)))]\<rparr>,
            Some (ApiKeyEntity r)) \<and>
         snd (getApiKey_try l k w) = Inr (Some (ApiKeyEntity r)) \<and>
         logged (fst (getApiKey l k w)) = logged w"
proof -
  have m: "redis_mode w \<noteq> Failing" "redis_mode w = Slow \<or> redis_data w (''api-key:'' @ k) = None"
    using assms(2) by simp_all
  note first = getApiKey_try_store_hit [OF m assms(3,4), of l]
  have a: "getApiKey l k w =
           (w\<lparr>apiKeys := (apiKeys w)(k \<mapsto> ApiKeyEntity r),
              redis_data := (redis_data w)(''api-key:'' @ k \<mapsto> (RString (JSON_stringify l (JsonRow r)), None)),
              calls := calls w @ [Redis (Get (''api-key:'' @ k)), Store (Select k),
                                  Redis (Set (''api-key:'' @ k) (JSON_stringify l (JsonRow r)))]\<rparr>,
            Some (ApiKeyEntity r))"
    by (simp only: getApiKey_miss [OF assms(1)] first prod.case sum.case)
  show ?thesis
    using a first by simp
qed

theorem getApiKey_slow_redis_falls_through_witness:
  "snd (getApiKey demo_lib ''abc''
          (world_abc\<lparr>redis_mode := Slow, redis_data := [''api-key:abc'' \<mapsto> (RString ''empty'', Some 5)]\<rparr>)) =
     Some (ApiKeyEntity row_abc) \<and>
   calls (fst (getApiKey demo_lib ''abc''
          (world_abc\<lparr>redis_mode := Slow, redis_data := [''api-key:abc'' \<mapsto> (RString ''empty'', Some 5)]\<rparr>))) =
     [Redis (Get ''api-key:abc''), Store (Select ''abc''), Redis (Set ''api-key:abc'' ''{row abc}'')] \<and>
   logged (fst (getApiKey demo_lib ''abc''
          (world_abc\<lparr>redis_mode := Slow, redis_data := [''api-key:abc'' \<mapsto> (RString ''empty'', Some 5)]\<rparr>))) = []"
proof -
  let ?w = "world_abc\<lparr>redis_mode := Slow, redis_data := [''api-key:abc'' \<mapsto> (RString ''empty'', Some 5)]\<rparr>"
  have h: "apiKeys ?w ''abc'' = None" "redis_mode ?w = Slow" "\<not> store_fails ?w"
    "active_rows ''abc'' (store_rows ?w) = [row_abc]"
    by (simp_all add: world_abc_facts active_rows_abc)
  have j: "JSON_stringify demo_lib (JsonRow row_abc) = ''{row abc}''"
    by (simp add: demo_lib_def row_abc_def)
  from getApiKey_slow_redis_falls_through [OF h, of demo_lib]
  show ?thesis by (simp add: world_abc_facts j)
qed

text \<open>
  C5, as the code has it. For a key with no entry in the process-local map, no entry
  in redis and no active row in the table, with redis not rejecting and the table
  answering, \<^verbatim>\<open>getApiKey\<close> returns \<^verbatim>\<open>null\<close>, sets the marker \<^verbatim>\<open>empty\<close> under \<^verbatim>\<open>api-key:\<close>
  and the key and gives it an expiry of 86400 seconds, and leaves the process-local map
  as it was.
\<close>

theorem getApiKey_unknown_key_writes_marker:
  assumes "apiKeys w k = None" and "redis_data w (''api-key:'' @ k) = None"
    and "redis_mode w \<noteq> Failing" and "\<not> store_fails w" and "active_rows k (store_rows w) = []"
  shows "getApiKey l k w =
           (w\<lparr>redis_data := (redis_data w)(''api-key:'' @ k \<mapsto> (RString ''empty'', Some 86400)),
              calls := calls w @ [Redis (Get (''api-key:'' @ k)), Store (Select k),
                                  Redis (Set (''api-key:'' @ k) ''empty''),
                                  Redis (Expire (''api-key:'' @ k) 86400)]\<rparr>,
            None) \<and>
         apiKeys (fst (getApiKey l k w)) = apiKeys w"
proof -
  have t: "redis_mode w = Slow \<or> redis_data w (''api-key:'' @ k) = None"
    using assms(2) by simp
  note first = getApiKey_try_store_miss [OF assms(3) t assms(4,5), of l]
  have a: "getApiKey l k w =
           (w\<lparr>redis_data := (redis_data w)(''api-key:'' @ k \<mapsto> (RString ''empty'', Some 86400)),
              calls := calls w @ [Redis (Get (''api-key:'' @ k)), Store (Select k),
                                  Redis (Set (''api-key:'' @ k) ''empty''),
                                  Redis (Expire (''api-key:'' @ k) 86400)]\<rparr>,
            None)"
    by (simp only: getApiKey_miss [OF assms(1)] first prod.case sum.case)
  show ?thesis
    using a by simp
qed

theorem getApiKey_unknown_key_writes_marker_witness:
  "getApiKey demo_lib ''abc'' world0 =
     (world0\<lparr>redis_data := [''api-key:abc'' \<mapsto> (RString ''empty'', Some 86400)],
        calls := [Redis (Get ''api-key:abc''), Store (Select ''abc''),
                  Redis (Set ''api-key:abc'' ''empty''), Redis (Expire ''api-key:abc'' 86400)]\<rparr>,
      None) \<and>
   apiKeys (fst (getApiKey demo_lib ''abc'' world0)) ''abc'' = None"
proof -
  have h: "apiKeys world0 ''abc'' = None" "redis_data world0 (''api-key:'' @ ''abc'') = None"
    "redis_mode world0 \<noteq> Failing" "\<not> store_fails world0"
    "active_rows ''abc'' (store_rows world0) = []"
    by (simp_all add: world0_def active_rows_def)
  have e: "redis_data world0 = Map.empty" "calls world0 = []" "apiKeys world0 = Map.empty"
    by (simp_all add: world0_def)
  from getApiKey_unknown_key_writes_marker [OF h, of demo_lib]
  show ?thesis by (simp add: e)
qed

text \<open>
  C5 as stated fails: the key \<^verbatim>\<open>abc\<close> has no positive entry in either cache and no row,
  but redis already holds the marker, with 5 seconds left; \<^verbatim>\<open>getApiKey\<close> returns \<^verbatim>\<open>null\<close>
  after the read alone, writes no marker and sets no expiry.
\<close>

theorem getApiKey_unknown_key_counterexample:
  "apiKeys (world0\<lparr>redis_data := [''api-key:abc'' \<mapsto> (RString ''empty'', Some 5)]\<rparr>) ''abc'' = None \<and>
   redis_data (world0\<lparr>redis_data := [''api-key:abc'' \<mapsto> (RString ''empty'', Some 5)]\<rparr>) ''api-key:abc'' =
     Some (RString ''empty'', Some 5) \<and>
   active_rows ''abc'' (store_rows (world0\<lparr>redis_data := [''api-key:abc'' \<mapsto> (RString ''empty'', Some 5)]\<rparr>)) = [] \<and>
   getApiKey demo_lib ''abc'' (world0\<lparr>redis_data := [''api-key:abc'' \<mapsto> (RString ''empty'', Some 5)]\<rparr>) =
     (world0\<lparr>redis_data := [''api-key:abc'' \<mapsto> (RString ''empty'', Some 5)],
             calls := [Redis (Get ''api-key:abc'')]\<rparr>, None)"
  by (simp add: world0_def active_rows_def getApiKey_def getApiKey_try_def redis_def race_timeout_def
      called_def Let_def)


subsection \<open>update\<close>

lemma forEach_fields_string:
  "fst (forEach_fields l flds (us, rv)) =
     us @ concat (map (\<lambda>f. assignment l f @ '','') (defined_fields flds))"
  by (induction l flds "(us, rv)" arbitrary: us rv rule: forEach_fields.induct)
     (simp_all add: defined_fields_def assignment_def)

lemma concat_assignments:
  "fs \<noteq> [] \<Longrightarrow> concat (map (\<lambda>f. g f @ sep) fs) = join sep (map g fs) @ sep"
  by (induction fs rule: induct_list012) simp_all

lemma trimEnd_empty: "trimEnd [] chars = []"
  by (simp add: trimEnd_def)

lemma trimEnd_comma: "s \<noteq> [] \<Longrightarrow> last s \<noteq> CHR '','' \<Longrightarrow> trimEnd (s @ '','') '','' = s"
  by (cases s rule: rev_cases) (simp_all add: trimEnd_def)

lemma join_assignments_last:
  "fs \<noteq> [] \<Longrightarrow> join '','' (map (assignment l) fs) \<noteq> [] \<and> last (join '','' (map (assignment l) fs)) = CHR ''/''"
  by (induction fs rule: induct_list012) (simp_all add: assignment_def)

lemma updateString_join:
  "trimEnd (fst (forEach_fields l flds ([], rv))) '','' = join '','' (map (assignment l) (defined_fields flds))"
proof (cases "defined_fields flds = []")
  case True
  then show ?thesis by (simp add: forEach_fields_string trimEnd_empty)
next
  case False
  then show ?thesis
    using join_assignments_last [OF False, of l]
    by (simp add: forEach_fields_string concat_assignments trimEnd_comma)
qed


lemma forEach_fields_values_other:
  "f \<notin> set (defined_fields flds) \<Longrightarrow>
     map_of (snd (forEach_fields l flds (us, rv))) f = map_of rv f"
  by (induction l flds "(us, rv)" arbitrary: us rv rule: forEach_fields.induct)
     (simp_all add: defined_fields_def update_conv')

lemma forEach_fields_values_defined:
  "distinct (defined_fields flds) \<Longrightarrow> (f, v) \<in> set (defined flds) \<Longrightarrow>
     map_of (snd (forEach_fields l flds (us, rv))) f = Some v"
proof (induction l flds "(us, rv)" arbitrary: us rv rule: forEach_fields.induct)
  case (3 l fieldName v' flds updateString replacementValues)
  show ?case
  proof (cases "(f, v) = (fieldName, v')")
    case True
    with 3(2) have "f \<notin> set (defined_fields flds)"
      by (simp add: defined_fields_def)
    then show ?thesis
      using True by (simp add: forEach_fields_values_other update_conv')
  next
    case False
    with 3(3) have m: "(f, v) \<in> set (defined flds)"
      by auto
    from 3(2) have d: "distinct (defined_fields flds)"
      by (simp add: defined_fields_def)
    from 3(1) [OF d m] show ?thesis
      by simp
  qed
qed (simp_all add: defined_fields_def)

lemma defined_subset: "fst ` set (defined flds) \<subseteq> fst ` set flds"
  by (induction flds rule: defined.induct) auto

lemma distinct_defined_fields: "distinct (map fst flds) \<Longrightarrow> distinct (defined_fields flds)"
proof (induction flds rule: defined.induct)
  case (3 fieldName v flds)
  then show ?case
    using defined_subset [of flds] by (auto simp add: defined_fields_def)
qed (simp_all add: defined_fields_def)

lemma resolve_all:
  "(\<And>f v. (f, v) \<in> set ps \<Longrightarrow> map_of vals f = Some v) \<Longrightarrow>
     resolve vals (map (\<lambda>(f, v). (c f, f)) ps) = Some (map (\<lambda>(f, v). (c f, v)) ps)"
proof (induction ps)
  case Nil
  show ?case by simp
next
  case (Cons p ps)
  obtain a b where p: "p = (a, b)"
    by (cases p)
  have h: "map_of vals a = Some b"
    using Cons.prems [of a b] by (simp add: p)
  have t: "resolve vals (map (\<lambda>(f, v). (c f, f)) ps) = Some (map (\<lambda>(f, v). (c f, v)) ps)"
    using Cons.prems by (intro Cons.IH) simp
  show ?case
    by (simp add: p h t)
qed

lemma set_clause_defined:
  "set_clause l flds = map (\<lambda>(f, v). (snakeCase l f, f)) (defined flds)"
  by (simp add: set_clause_def defined_fields_def case_prod_beta)

lemma resolve_update:
  assumes "distinct (map fst flds)"
  shows "resolve (snd (forEach_fields l flds (us, rv))) (set_clause l flds) =
           Some (map (\<lambda>(f, v). (snakeCase l f, v)) (defined flds))"
  unfolding set_clause_defined
  by (rule resolve_all) (rule forEach_fields_values_defined [OF distinct_defined_fields [OF assms]])

lemma idb_update_ok:
  assumes "idb_update q sets vals w = (w1, Inr u)"
  shows "\<not> store_fails w \<and>
         (\<exists>as k'. resolve vals sets = Some as \<and> map_of vals ''key'' = Some (JStr k') \<and>
            w1 = w\<lparr>store_rows := update_rows k' as (store_rows w),
                   calls := calls w @ [Store (Update q vals)]\<rparr>)"
  using assms
  by (auto simp add: idb_update_def called_def Let_def
      split: if_splits option.splits js_value.splits)


lemma deleteCachedApiKey_ok:
  assumes "deleteCachedApiKey k w = (w2, Inr u)"
  shows "redis_mode w \<noteq> Failing \<and>
         w2 = w\<lparr>apiKeys := (apiKeys w)(k := None),
                redis_data := (redis_data w)(''api-key:'' @ k := None),
                calls := calls w @ [Redis (Del (''api-key:'' @ k))]\<rparr>"
  using assms
  by (auto simp add: deleteCachedApiKey_def redis_def called_def Let_def split: if_splits)

lemma publish_ok:
  assumes "redis (Publish c m) w = (w3, Inr r)"
  shows "w3 = w\<lparr>published := published w @ [(c, m)], calls := calls w @ [Redis (Publish c m)]\<rparr>"
  using assms
  by (auto simp add: redis_def called_def split: if_splits)

lemma update_ok:
  assumes "update l k flds w = (w', Inr u)"
  shows "\<not> store_fails w \<and> redis_mode w \<noteq> Failing \<and>
         (\<exists>as k'. resolve (snd (forEach_fields l flds ([], [(''key'', JStr k)]))) (set_clause l flds) = Some as \<and>
            map_of (snd (forEach_fields l flds ([], [(''key'', JStr k)]))) ''key'' = Some (JStr k') \<and>
            w' = w\<lparr>apiKeys := (apiKeys w)(k := None),
                   redis_data := (redis_data w)(''api-key:'' @ k := None),
                   published := published w @ [(ApiKeyUpdated, JSON_stringify l (JsonKey k))],
                   store_rows := update_rows k' as (store_rows w),
                   calls := calls w @
                     [Store (Update (update_query (trimEnd (fst (forEach_fields l flds ([], [(''key'', JStr k)]))) '',''))
                                    (snd (forEach_fields l flds ([], [(''key'', JStr k)])))),
                      Redis (Del (''api-key:'' @ k)),
                      Redis (Publish ApiKeyUpdated (JSON_stringify l (JsonKey k)))]\<rparr>)"
proof -
  obtain us rv where fe: "forEach_fields l flds ([], [(''key'', JStr k)]) = (us, rv)"
    by (cases "forEach_fields l flds ([], [(''key'', JStr k)])")
  let ?q = "update_query (trimEnd us '','')"
  from assms fe obtain w1 w2 u1 u2 r where
    a: "idb_update ?q (set_clause l flds) rv w = (w1, Inr u1)" and
    b: "deleteCachedApiKey k w1 = (w2, Inr u2)" and
    c: "redis (Publish ApiKeyUpdated (JSON_stringify l (JsonKey k))) w2 = (w', Inr r)"
    by (auto simp add: update_def Let_def split: prod.splits sum.splits)
  from idb_update_ok [OF a] obtain as k' where
    sf: "\<not> store_fails w" and rs: "resolve rv (set_clause l flds) = Some as" and
    kk: "map_of rv ''key'' = Some (JStr k')" and
    w1: "w1 = w\<lparr>store_rows := update_rows k' as (store_rows w), calls := calls w @ [Store (Update ?q rv)]\<rparr>"
    by blast
  from deleteCachedApiKey_ok [OF b] have
    rm: "redis_mode w1 \<noteq> Failing" and
    w2: "w2 = w1\<lparr>apiKeys := (apiKeys w1)(k := None),
                redis_data := (redis_data w1)(''api-key:'' @ k := None),
                calls := calls w1 @ [Redis (Del (''api-key:'' @ k))]\<rparr>"
    by blast+
  note w3 = publish_ok [OF c]
  have "w' = w\<lparr>apiKeys := (apiKeys w)(k := None),
                   redis_data := (redis_data w)(''api-key:'' @ k := None),
                   published := published w @ [(ApiKeyUpdated, JSON_stringify l (JsonKey k))],
                   store_rows := update_rows k' as (store_rows w),
                   calls := calls w @
                     [Store (Update ?q rv), Redis (Del (''api-key:'' @ k)),
                      Redis (Publish ApiKeyUpdated (JSON_stringify l (JsonKey k)))]\<rparr>"
    by (simp add: w3 w2 w1)
  moreover have "redis_mode w \<noteq> Failing"
    using rm by (simp add: w1)
  ultimately show ?thesis
    using sf rs kk by (simp add: fe)
qed









lemma getApiKey_after_miss_both:
  assumes "apiKeys w k = None" and "redis_data w (''api-key:'' @ k) = None"
    and "redis_mode w \<noteq> Failing" and "\<not> store_fails w"
  shows "(active_rows k (store_rows w) = [r] \<longrightarrow> snd (getApiKey l k w) = Some (ApiKeyEntity r)) \<and>
         (active_rows k (store_rows w) = [] \<longrightarrow> snd (getApiKey l k w) = None)"
proof -
  have t: "redis_mode w = Slow \<or> redis_data w (''api-key:'' @ k) = None"
    using assms(2) by simp
  show ?thesis
    by (simp add: getApiKey_miss [OF assms(1)] getApiKey_try_store_hit [OF assms(3) t assms(4)]
        getApiKey_try_store_miss [OF assms(3) t assms(4)])
qed

text \<open>
  C7. When \<^verbatim>\<open>update\<close> returns (the properties of \<^verbatim>\<open>fields\<close> bear distinct names, as those
  of an object do), it has made three calls in this order: the update statement, the
  \<^verbatim>\<open>del\<close> of \<^verbatim>\<open>api-key:\<close> and the key, and one \<^verbatim>\<open>publish\<close> of \<^verbatim>\<open>{ key }\<close> on the channel.
  The rows with the key carry the defined fields' values (when \<^verbatim>\<open>key\<close> itself is not
  among the fields), the key is gone from the process-local map and from redis, one
  message was delivered, and a \<^verbatim>\<open>getApiKey\<close> that follows returns the entity of the
  row as the table now has it, whatever the process-local map held before.
\<close>

theorem update_evicts_publishes_next_lookup_fresh:
  assumes "update l k flds w = (w', Inr ())" and "distinct (map fst flds)"
  shows "calls w' = calls w @
           [Store (Update (update_query (join '','' (map (assignment l) (defined_fields flds))))
                          (snd (forEach_fields l flds ([], [(''key'', JStr k)])))),
            Redis (Del (''api-key:'' @ k)),
            Redis (Publish ApiKeyUpdated (JSON_stringify l (JsonKey k)))] \<and>
         (''key'' \<notin> set (defined_fields flds) \<longrightarrow>
            store_rows w' = update_rows k (map (\<lambda>(f, v). (snakeCase l f, v)) (defined flds)) (store_rows w)) \<and>
         apiKeys w' = (apiKeys w)(k := None) \<and>
         redis_data w' = (redis_data w)(''api-key:'' @ k := None) \<and>
         published w' = published w @ [(ApiKeyUpdated, JSON_stringify l (JsonKey k))] \<and>
         (\<forall>r. active_rows k (store_rows w') = [r] \<longrightarrow> snd (getApiKey l k w') = Some (ApiKeyEntity r)) \<and>
         (active_rows k (store_rows w') = [] \<longrightarrow> snd (getApiKey l k w') = None)"
proof -
  let ?rv = "snd (forEach_fields l flds ([], [(''key'', JStr k)]))"
  from update_ok [OF assms(1)] obtain as k' where
    sf: "\<not> store_fails w" and rm: "redis_mode w \<noteq> Failing" and
    rs: "resolve ?rv (set_clause l flds) = Some as" and
    kk: "map_of ?rv ''key'' = Some (JStr k')" and
    w': "w' = w\<lparr>apiKeys := (apiKeys w)(k := None),
                   redis_data := (redis_data w)(''api-key:'' @ k := None),
                   published := published w @ [(ApiKeyUpdated, JSON_stringify l (JsonKey k))],
                   store_rows := update_rows k' as (store_rows w),
                   calls := calls w @
                     [Store (Update (update_query (trimEnd (fst (forEach_fields l flds ([], [(''key'', JStr k)]))) '','')) ?rv),
                      Redis (Del (''api-key:'' @ k)),
                      Redis (Publish ApiKeyUpdated (JSON_stringify l (JsonKey k)))]\<rparr>"
    by blast
  have as: "as = map (\<lambda>(f, v). (snakeCase l f, v)) (defined flds)"
    using rs resolve_update [OF assms(2), of l "[]" "[(''key'', JStr k)]"] by simp
  have k': "''key'' \<notin> set (defined_fields flds) \<Longrightarrow> k' = k"
    using kk by (simp add: forEach_fields_values_other)
  have h: "apiKeys w' k = None" "redis_data w' (''api-key:'' @ k) = None"
    "redis_mode w' \<noteq> Failing" "\<not> store_fails w'"
    using sf rm by (simp_all add: w')
  have g: "\<And>r. (active_rows k (store_rows w') = [r] \<longrightarrow> snd (getApiKey l k w') = Some (ApiKeyEntity r)) \<and>
         (active_rows k (store_rows w') = [] \<longrightarrow> snd (getApiKey l k w') = None)"
    by (rule getApiKey_after_miss_both [OF h])
  have c: "calls w' = calls w @
           [Store (Update (update_query (join '','' (map (assignment l) (defined_fields flds)))) ?rv),
            Redis (Del (''api-key:'' @ k)),
            Redis (Publish ApiKeyUpdated (JSON_stringify l (JsonKey k)))]"
    by (simp add: w' updateString_join)
  have s: "''key'' \<notin> set (defined_fields flds) \<longrightarrow>
            store_rows w' = update_rows k (map (\<lambda>(f, v). (snakeCase l f, v)) (defined flds)) (store_rows w)"
    using k' by (simp add: w' as)
  have rest: "apiKeys w' = (apiKeys w)(k := None)"
    "redis_data w' = (redis_data w)(''api-key:'' @ k := None)"
    "published w' = published w @ [(ApiKeyUpdated, JSON_stringify l (JsonKey k))]"
    by (simp_all add: w')
  from c s rest g show ?thesis
    by blast
qed

lemma world_cached_facts:
  "apiKeys world_cached ''abc'' = Some (ApiKeyEntity row_abc)"
  "redis_data world_cached ''api-key:abc'' = Some (RString ''{row abc}'', None)"
  "redis_mode world_cached = Up" "\<not> store_fails world_cached" "calls world_cached = []"
  "store_rows world_cached = [row_abc]" "published world_cached = []"
  by (simp_all add: world_cached_def world_abc_facts)

theorem update_evicts_publishes_next_lookup_fresh_witness:
  "apiKeys world_cached ''abc'' = Some (ApiKeyEntity row_abc) \<and> row_tier row_abc = 1 \<and>
   snd (update demo_lib ''abc'' [(''tier'', Some (JNum 3)), (''website'', None)] world_cached) = Inr () \<and>
   published (fst (update demo_lib ''abc'' [(''tier'', Some (JNum 3)), (''website'', None)] world_cached)) =
     [(ApiKeyUpdated, ''{key abc}'')] \<and>
   snd (getApiKey demo_lib ''abc''
          (fst (update demo_lib ''abc'' [(''tier'', Some (JNum 3)), (''website'', None)] world_cached))) =
     Some (ApiKeyEntity (row_abc\<lparr>row_tier := 3\<rparr>))"
proof -
  let ?f = "[(''tier'', Some (JNum 3)), (''website'', None)]"
  let ?u = "update demo_lib ''abc'' ?f world_cached"
  have ok: "snd ?u = Inr ()"
    by (simp add: update_def idb_update_def set_clause_def defined_fields_def deleteCachedApiKey_def
        redis_def called_def update_rows_def world_cached_facts demo_lib_def Let_def row_abc_def)
  then have e: "?u = (fst ?u, Inr ())"
    by (simp add: prod_eq_iff)
  have d: "distinct (map fst ?f)"
    by simp
  note t = update_evicts_publishes_next_lookup_fresh [OF e d]
  have n: "''key'' \<notin> set (defined_fields ?f)"
    by (simp add: defined_fields_def)
  have rows: "store_rows (fst ?u) = [row_abc\<lparr>row_tier := 3\<rparr>]"
    using t n by (simp add: update_rows_def world_cached_facts demo_lib_def row_abc_def)
  have act: "active_rows ''abc'' (store_rows (fst ?u)) = [row_abc\<lparr>row_tier := 3\<rparr>]"
    by (simp add: rows active_rows_def row_abc_def)
  have look: "snd (getApiKey demo_lib ''abc'' (fst ?u)) = Some (ApiKeyEntity (row_abc\<lparr>row_tier := 3\<rparr>))"
    using t act by blast
  have pub: "published (fst ?u) = [(ApiKeyUpdated, ''{key abc}'')]"
    using t by (simp add: world_cached_facts demo_lib_def)
  show ?thesis
    using ok look pub by (simp add: world_cached_facts) (simp add: row_abc_def)
qed

subsection \<open>create and getApiKey together\<close>

text \<open>
  C2 fails on the code. \<^verbatim>\<open>create\<close> with the key \<^verbatim>\<open>k1\<close>, on an idle world: the record is
  written to redis as a hash under \<^verbatim>\<open>apikey:k1\<close>, and nothing is under \<^verbatim>\<open>api-key:k1\<close>, the
  key that \<^verbatim>\<open>getApiKey\<close> reads; the \<^verbatim>\<open>getApiKey\<close> that follows misses in redis and goes
  to the table.
\<close>

theorem create_caches_under_another_key:
  "calls (fst (create demo_lib (foo\<lparr>key := Some ''k1''\<rparr>) world0)) =
     [Store (Insert (foo\<lparr>key := Some ''k1''\<rparr>)),
      Redis (HSet ''apikey:k1'' (entries (foo\<lparr>key := Some ''k1''\<rparr>))),
      Notifier (foo\<lparr>key := Some ''k1''\<rparr>)] \<and>
   redis_data (fst (create demo_lib (foo\<lparr>key := Some ''k1''\<rparr>) world0)) ''apikey:k1'' =
     Some (RHash (entries (foo\<lparr>key := Some ''k1''\<rparr>)), None) \<and>
   redis_data (fst (create demo_lib (foo\<lparr>key := Some ''k1''\<rparr>) world0)) ''api-key:k1'' = None \<and>
   calls (fst (getApiKey demo_lib ''k1'' (fst (create demo_lib (foo\<lparr>key := Some ''k1''\<rparr>) world0)))) =
     calls (fst (create demo_lib (foo\<lparr>key := Some ''k1''\<rparr>) world0)) @
       [Redis (Get ''api-key:k1''), Store (Select ''k1''), Redis (Set ''api-key:k1'' ''{row k1}'')]"
proof -
  let ?v = "foo\<lparr>key := Some ''k1''\<rparr>"
  let ?w = "fst (create demo_lib ?v world0)"
  have w: "?w = world0\<lparr>redis_data := [''apikey:k1'' \<mapsto> (RHash (entries ?v), None)],
                       store_rows := [row_of_record ?v],
                       calls := [Store (Insert ?v), Redis (HSet ''apikey:k1'' (entries ?v)), Notifier ?v]\<rparr>"
    by (simp add: create_def assign_key_def idb_insert_cases rows_with_key_def cache_on_redis_def
        redis_def called_def notifyApiKeyCreated_def axios_post_def Let_def world0_def foo_def)
  have h: "apiKeys ?w ''k1'' = None" "redis_data ?w (''api-key:'' @ ''k1'') = None"
    "redis_mode ?w \<noteq> Failing" "\<not> store_fails ?w"
    "active_rows ''k1'' (store_rows ?w) = [row_of_record ?v]"
    by (simp_all only: w) (simp_all add: world0_def active_rows_def row_of_record_def)
  have j: "JSON_stringify demo_lib (JsonRow (row_of_record ?v)) = ''{row k1}''"
    by (simp add: demo_lib_def row_of_record_def)
  have g: "calls (fst (getApiKey demo_lib ''k1'' ?w)) =
     calls ?w @ [Redis (Get ''api-key:k1''), Store (Select ''k1''), Redis (Set ''api-key:k1'' ''{row k1}'')]"
    using getApiKey_try_store_hit [of ?w "''k1''" "row_of_record ?v" demo_lib] h
    by (simp add: getApiKey_miss j)
  have c: "calls ?w = [Store (Insert ?v), Redis (HSet ''apikey:k1'' (entries ?v)), Notifier ?v]"
    "redis_data ?w ''apikey:k1'' = Some (RHash (entries ?v), None)"
    "redis_data ?w ''api-key:k1'' = None"
    by (simp_all only: w) (simp_all add: world0_def)
  show ?thesis
    using g c by simp
qed


end
